theory Spec2Isabelle
  imports Main
begin

section \<open>The client of chatgpt.go\<close>

text \<open>
  A shallow embedding of \<^verbatim>\<open>src/chatgpt.go\<close>. Each Go function is a HOL function of the
  same name. The receiver a method mutates is passed in and returned; the clock, the random
  source, the network and the JSON decoder of the standard library are the fields of a record
  \<open>World\<close> that is passed in and returned as well. A Go \<^verbatim>\<open>(T, error)\<close> result is
  \<open>error + T\<close>, a run-time panic is a value of its own, and a call that never returns is
  \<open>None\<close>.
\<close>

subsection \<open>Values of the standard library\<close>

text \<open>
  \<^verbatim>\<open>time.Time\<close> is an instant on a line, counted from the zero \<^verbatim>\<open>Time\<close>;
  \<^verbatim>\<open>time.Duration\<close> is a count of nanoseconds. No arithmetic is done on either.
\<close>

type_synonym Time = int
type_synonym Duration = int

definition zero_Time :: Time where
  "zero_Time = 0"

definition Second :: Duration where
  "Second = 1000000000"

definition After :: "Time \<Rightarrow> Time \<Rightarrow> bool" where
  \<comment> \<open>\<^verbatim>\<open>t.After(u)\<close>: whether t is strictly after u.\<close>
  "After t u = (u < t)"

text \<open>A \<^verbatim>\<open>*logrus.Entry\<close> is a handle or nil; what is written to it is not modelled.\<close>

type_synonym Logger = nat

text \<open>
  The errors the program returns. The ones it builds with \<^verbatim>\<open>fmt.Errorf\<close> carry the
  values formatted into the message; the ones the library hands it are passed on.
\<close>

datatype error =
    ErrMustSet  \<comment> \<open>line 36: sessionToken and clearanceToken and userAgent must set\<close>
  | ErrTransport string  \<comment> \<open>the error of \<^verbatim>\<open>http.Client.Do\<close>\<close>
  | ErrEOF  \<comment> \<open>\<^verbatim>\<open>io.EOF\<close>\<close>
  | ErrRead string  \<comment> \<open>any other error of reading a response body\<close>
  | ErrReadBody error  \<comment> \<open>line 98: read body: %w\<close>
  | ErrStatus int  \<comment> \<open>line 106: response status=%d not 200\<close>
  | ErrJSONFormat string error  \<comment> \<open>line 111: JSON %s format: %w\<close>
  | ErrNoAccessToken string  \<comment> \<open>line 114: response not containes accessToken: %s\<close>
  | ErrResponseHasError string  \<comment> \<open>line 117: response has error: %s\<close>
  | ErrRefresh error  \<comment> \<open>line 204: refresh access token: %w\<close>
  | ErrStatusBody int string  \<comment> \<open>line 253: response status code=%d, body=%s\<close>
  | SyntaxError  \<comment> \<open>\<^verbatim>\<open>*json.SyntaxError\<close>\<close>
  | UnmarshalTypeError string  \<comment> \<open>\<^verbatim>\<open>*json.UnmarshalTypeError\<close>, with the JSON value it met\<close>

text \<open>A JSON document; a number keeps its literal.\<close>

datatype json =
    JNull
  | JBool bool
  | JNumber string
  | JString string
  | JArray "json list"
  | JObject "(string \<times> json) list"

text \<open>
  A response body: the bytes the server sends, then either the end of the stream or an
  error of the transport.
\<close>

record Body =
  content :: string
  fault :: "error option"

record Response =
  StatusCode :: int
  Body :: Body

record Request =
  Method :: string
  URL :: string
  Header :: "(string \<times> string) list"
  ReqBody :: "json option"

definition NewRequest :: "string \<Rightarrow> string \<Rightarrow> json option \<Rightarrow> Request" where
  \<comment> \<open>\<^verbatim>\<open>http.NewRequest\<close> fails on a malformed method or URL only; both are constants here.\<close>
  "NewRequest method url body = \<lparr>Method = method, URL = url, Header = [], ReqBody = body\<rparr>"

definition Header_Set :: "Request \<Rightarrow> string \<Rightarrow> string \<Rightarrow> Request" where
  \<comment> \<open>\<^verbatim>\<open>req.Header.Set(key, value)\<close>: the key's entries are replaced by the one value.
      The keys are kept as the source writes them (Go stores them in canonical case); no two
      keys of the source differ in case only.\<close>
  "Header_Set req key v = req\<lparr>Header := filter (\<lambda>kv. fst kv \<noteq> key) (Header req) @ [(key, v)]\<rparr>"

definition ReadAll :: "Body \<Rightarrow> string \<times> error option" where
  \<comment> \<open>\<^verbatim>\<open>io.ReadAll\<close>: the bytes read until the end of the stream (no error) or until an error.\<close>
  "ReadAll b = (content b, fault b)"

subsection \<open>The structs of the program\<close>

record ChatGPT =
  SessionToken :: string
  ClearanceToken :: string
  AccessToken :: string
  AccessTokenExpires :: Time
  Log :: "Logger option"
  Timeout :: Duration
  UserAgent :: string

record ChatGPTOptions =
  SessionToken :: string
  ClearanceToken :: string
  UserAgent :: string
  Log :: "Logger option"
  Timeout :: "Duration option"

record SessionResult_User =
  Id :: string
  Name :: string
  Email :: string
  Image :: string
  Picture :: string
  Groups :: "json list"
  Features :: "json list"

record SessionResult =
  User :: SessionResult_User
  Expires :: Time
  AccessToken :: string
  Error :: string

record Conversation =
  ChatGPT :: ChatGPT
  ConversationId :: string
  ParentMessageId :: string

record Content =
  ContentType :: string
  Parts :: "string list"

record ConversationBodyMessage =
  Id :: string
  Role :: string
  Content :: Content

record ConversationBody =
  Action :: string
  Messages :: "ConversationBodyMessage list"
  ParentMessageId :: string
  Model :: string
  ConversationId :: string

record ConversationResult_Message =
  Id :: string
  Role :: string
  User :: json
  CreateTime :: json
  UpdateTime :: json
  Content :: Content
  EndTurn :: json
  Weight :: string
  Recipient :: string

record ConversationResult =
  Message :: ConversationResult_Message
  ConversationId :: string
  Error :: json

text \<open>
  \<open>Conversation.ChatGPT\<close> is a pointer in the source; the model holds the client by
  value, so two conversations of one client do not share its token cache here.
  \<open>Weight\<close> is a \<^verbatim>\<open>float64\<close>, kept as the literal the decoder read (nothing reads it);
  the empty struct \<open>Metadata\<close> has no content and is left out.
\<close>

subsection \<open>The surroundings\<close>

text \<open>
  What the program calls and does not define: \<^verbatim>\<open>time.Now\<close>, \<^verbatim>\<open>uuid.NewString\<close>,
  \<^verbatim>\<open>http.Client.Do\<close> (the answer to a request, and the list of the requests sent so far),
  and \<^verbatim>\<open>json.Unmarshal\<close> into a fresh value of each of the two result structs.
\<close>

record World =
  Now :: Time
  uuids :: "nat \<Rightarrow> string"
  uuid_next :: nat
  Do :: "Duration \<Rightarrow> Request \<Rightarrow> error + Response"
  sent :: "Request list"
  Unmarshal_SessionResult :: "string \<Rightarrow> error + SessionResult"
  Unmarshal_ConversationResult :: "string \<Rightarrow> error + ConversationResult"

definition NewString :: "World \<Rightarrow> string \<times> World" where
  "NewString w = (uuids w (uuid_next w), w\<lparr>uuid_next := Suc (uuid_next w)\<rparr>)"

definition Client_Do :: "World \<Rightarrow> Duration \<Rightarrow> Request \<Rightarrow> (error + Response) \<times> World" where
  \<comment> \<open>\<^verbatim>\<open>(&http.Client{Timeout: t}).Do(req)\<close>\<close>
  "Client_Do w t req = (Do w t req, w\<lparr>sent := sent w @ [req]\<rparr>)"

subsection \<open>NewChatGPT\<close>

definition NewChatGPT :: "ChatGPTOptions \<Rightarrow> error + ChatGPT" where
  "NewChatGPT options =
     (if ChatGPTOptions.SessionToken options = '''' \<or> ChatGPTOptions.ClearanceToken options = ''''
         \<or> ChatGPTOptions.UserAgent options = ''''
      then Inl ErrMustSet
      else
        let c = \<lparr>ChatGPT.SessionToken = ChatGPTOptions.SessionToken options,
                 ChatGPT.ClearanceToken = ChatGPTOptions.ClearanceToken options,
                 ChatGPT.AccessToken = '''',
                 ChatGPT.AccessTokenExpires = zero_Time,
                 ChatGPT.Log = ChatGPTOptions.Log options,
                 ChatGPT.Timeout = 0,
                 ChatGPT.UserAgent = ChatGPTOptions.UserAgent options\<rparr>
        in Inr (case ChatGPTOptions.Timeout options of
                  Some t \<Rightarrow> c\<lparr>ChatGPT.Timeout := t\<rparr>
                | None \<Rightarrow> c\<lparr>ChatGPT.Timeout := Second * 10\<rparr>))"

subsection \<open>The access token\<close>

definition IsAccessTokenExpired :: "World \<Rightarrow> ChatGPT \<Rightarrow> bool" where
  "IsAccessTokenExpired w c = After (Now w) (ChatGPT.AccessTokenExpires c)"

definition session_request :: "ChatGPT \<Rightarrow> Request" where
  \<comment> \<open>lines 74 to 85: the request of \<open>RefreshAccessToken\<close>\<close>
  "session_request c =
     (let req = NewRequest ''GET'' ''https://chat.openai.com/api/auth/session'' None;
          req = Header_Set req ''cookie''
                  (''cf_clearance='' @ ChatGPT.ClearanceToken c
                     @ ''; __Secure-next-auth.session-token='' @ ChatGPT.SessionToken c);
          req = Header_Set req ''user-agent'' (ChatGPT.UserAgent c);
          req = Header_Set req ''x-openai-assistant-app-id'' '''';
          req = Header_Set req ''accept-language'' ''en-US,en;q=0.9'';
          req = Header_Set req ''origin'' ''https://chat.openai.com'';
          req = Header_Set req ''referer'' ''https://chat.openai.com/chat''
      in req)"

definition RefreshAccessToken :: "World \<Rightarrow> ChatGPT \<Rightarrow> error option \<times> ChatGPT \<times> World" where
  "RefreshAccessToken w c =
     (if ChatGPT.AccessToken c = '''' \<or> IsAccessTokenExpired w c then
        (case Client_Do w (ChatGPT.Timeout c) (session_request c) of
           (Inl err, w') \<Rightarrow> (Some err, c, w')
         | (Inr resp, w') \<Rightarrow>
             (case ReadAll (Body resp) of
                (b, Some err) \<Rightarrow> (Some (ErrReadBody err), c, w')
              | (b, None) \<Rightarrow>
                  if StatusCode resp \<noteq> 200 then (Some (ErrStatus (StatusCode resp)), c, w')
                  else
                    (case Unmarshal_SessionResult w' b of
                       Inl err \<Rightarrow> (Some (ErrJSONFormat b err), c, w')
                     | Inr respJson \<Rightarrow>
                         if SessionResult.AccessToken respJson = ''''
                         then (Some (ErrNoAccessToken b), c, w')
                         else if SessionResult.Error respJson \<noteq> ''''
                         then (Some (ErrResponseHasError (SessionResult.Error respJson)), c, w')
                         else (None,
                               c\<lparr>ChatGPT.AccessTokenExpires := Expires respJson,
                                 ChatGPT.AccessToken := SessionResult.AccessToken respJson\<rparr>,
                               w'))))
      else (None, c, w))"

subsection \<open>Reading lines\<close>

fun IndexByte :: "string \<Rightarrow> char \<Rightarrow> nat option" where
  "IndexByte [] c = None"
| "IndexByte (x # s) c = (if x = c then Some 0 else map_option Suc (IndexByte s c))"

fun Index :: "string \<Rightarrow> string \<Rightarrow> nat option" where
  \<comment> \<open>\<^verbatim>\<open>bytes.Index(s, sep)\<close>: where sep first occurs in s; \<open>None\<close> for the source's -1.\<close>
  "Index [] sep = (if sep = [] then Some 0 else None)"
| "Index (x # s) sep =
     (if take (length sep) (x # s) = sep then Some 0 else map_option Suc (Index s sep))"

definition SplitN_2 :: "string \<Rightarrow> string \<Rightarrow> string list" where
  \<comment> \<open>\<^verbatim>\<open>bytes.SplitN(s, sep, 2)\<close> for a separator that is not empty: s cut at the first
      occurrence of sep, or s alone when there is none.\<close>
  "SplitN_2 s sep =
     (case Index s sep of
        None \<Rightarrow> [s]
      | Some m \<Rightarrow> [take m s, drop (m + length sep) s])"

definition TrimSuffix :: "string \<Rightarrow> string \<Rightarrow> string" where
  "TrimSuffix s suffix =
     (if length suffix \<le> length s \<and> drop (length s - length suffix) s = suffix
      then take (length s - length suffix) s
      else s)"

definition ReadBytes :: "Body \<Rightarrow> char \<Rightarrow> (string \<times> error option) \<times> Body" where
  \<comment> \<open>\<^verbatim>\<open>br.ReadBytes(delim)\<close> on a \<^verbatim>\<open>bufio.Reader\<close> over the body: the bytes up to and
      with the first delim; when there is none, all the bytes left together with the error
      that ended the stream, \<^verbatim>\<open>io.EOF\<close> at its end. The reader is the part of the body not
      yet read.\<close>
  "ReadBytes br d =
     (case IndexByte (content br) d of
        Some i \<Rightarrow> ((take (Suc i) (content br), None), br\<lparr>content := drop (Suc i) (content br)\<rparr>)
      | None \<Rightarrow>
          ((content br, Some (case fault br of None \<Rightarrow> ErrEOF | Some e \<Rightarrow> e)),
           br\<lparr>content := []\<rparr>))"

definition delim :: string where
  "delim = '': ''"

text \<open>
  The loop of lines 261 to 284, from the reader and the value of \<^verbatim>\<open>respMessage\<close>:
  \<open>Some (Inl err)\<close> when the function returns the error of a read, \<open>Some (Inr respMessage)\<close>
  when the loop is left by \<^verbatim>\<open>break\<close>, \<open>None\<close> when it is never left. (\<open>the err\<close> is
  read where \<open>err\<close> is not \<open>None\<close> only.)
\<close>

partial_function (option) SendMessage_loop :: "Body \<Rightarrow> string \<Rightarrow> (error + string) option" where
  "SendMessage_loop br respMessage =
     (case ReadBytes br (CHR 0x0A) of
        ((bs, err), br') \<Rightarrow>
          if err \<noteq> None \<and> err \<noteq> Some ErrEOF then Some (Inl (the err))
          else if length bs < 2 then SendMessage_loop br' respMessage
          else
            let spl = SplitN_2 bs delim in
            if length spl < 2 then SendMessage_loop br' respMessage
            else
              let value = TrimSuffix (spl ! 1) ''\<newline>'' in
              if err = Some ErrEOF \<or> value = ''[DONE]'' then Some (Inr respMessage)
              else SendMessage_loop br' value)"

subsection \<open>The request body\<close>

text \<open>
  \<^verbatim>\<open>json.Marshal\<close> of the request structs, as the document it writes: the fields in the
  order of the declaration under the names of their tags, and \<open>conversation_id\<close>, tagged
  \<^verbatim>\<open>omitempty\<close>, only when it is not the empty string. The escaping of the bytes is not
  modelled. The slices \<open>SendMessage\<close> builds are never nil.
\<close>

definition Marshal_Content :: "Content \<Rightarrow> json" where
  "Marshal_Content c =
     JObject [(''content_type'', JString (ContentType c)),
              (''parts'', JArray (map JString (Parts c)))]"

definition Marshal_ConversationBodyMessage :: "ConversationBodyMessage \<Rightarrow> json" where
  "Marshal_ConversationBodyMessage m =
     JObject [(''id'', JString (ConversationBodyMessage.Id m)),
              (''role'', JString (ConversationBodyMessage.Role m)),
              (''content'', Marshal_Content (ConversationBodyMessage.Content m))]"

definition Marshal_ConversationBody :: "ConversationBody \<Rightarrow> json" where
  "Marshal_ConversationBody b =
     JObject ([(''action'', JString (Action b)),
               (''messages'', JArray (map Marshal_ConversationBodyMessage (Messages b))),
               (''parent_message_id'', JString (ConversationBody.ParentMessageId b)),
               (''model'', JString (Model b))]
              @ (if ConversationBody.ConversationId b = '''' then []
                 else [(''conversation_id'', JString (ConversationBody.ConversationId b))]))"

definition Reader :: "ConversationBody \<Rightarrow> error + json" where
  \<comment> \<open>\<^verbatim>\<open>json.Marshal\<close> has no error for a struct of strings and slices of strings.\<close>
  "Reader b = Inr (Marshal_ConversationBody b)"

definition keys :: "json \<Rightarrow> string list" where
  \<comment> \<open>the keys of a document that is an object\<close>
  "keys j = (case j of JObject kvs \<Rightarrow> map fst kvs | _ \<Rightarrow> [])"

subsection \<open>SendMessage\<close>

datatype 'a result = Return 'a | Panic string

definition GetMessage :: "ConversationResult \<Rightarrow> (error + string) result" where
  \<comment> \<open>\<^verbatim>\<open>r.Message.Content.Parts[0]\<close>: Go panics when the slice is empty.\<close>
  "GetMessage r =
     (case Parts (ConversationResult_Message.Content (Message r)) of
        [] \<Rightarrow> Panic ''index out of range [0] with length 0''
      | p # _ \<Rightarrow> Return (Inr p))"

definition conversation_body :: "Conversation \<Rightarrow> string \<Rightarrow> string \<Rightarrow> ConversationBody" where
  \<comment> \<open>lines 206 to 224, with the identifier drawn for the message\<close>
  "conversation_body c u message =
     (let body = \<lparr>Action = ''next'',
                  Messages = [\<lparr>ConversationBodyMessage.Id = u,
                               ConversationBodyMessage.Role = ''user'',
                               ConversationBodyMessage.Content =
                                 \<lparr>ContentType = ''text'', Parts = [message]\<rparr>\<rparr>],
                  ConversationBody.ParentMessageId = Conversation.ParentMessageId c,
                  Model = ''text-davinci-002-render'',
                  ConversationBody.ConversationId = ''''\<rparr>
      in if Conversation.ConversationId c \<noteq> ''''
         then body\<lparr>ConversationBody.ConversationId := Conversation.ConversationId c\<rparr>
         else body)"

definition conversation_request :: "ChatGPT \<Rightarrow> json \<Rightarrow> Request" where
  \<comment> \<open>lines 232 to 245\<close>
  "conversation_request g bodyReader =
     (let req = NewRequest ''POST'' ''https://chat.openai.com/backend-api/conversation''
                  (Some bodyReader);
          req = Header_Set req ''authorization'' (ChatGPT.AccessToken g);
          req = Header_Set req ''content-type'' ''application/json'';
          req = Header_Set req ''user-agent'' (ChatGPT.UserAgent g);
          req = Header_Set req ''accept'' ''text/event-stream'';
          req = Header_Set req ''cookie'' (''cf_clearance='' @ ChatGPT.ClearanceToken g);
          req = Header_Set req ''x-openai-assistant-app-id'' '''';
          req = Header_Set req ''accept-language'' ''en-US,en;q=0.9'';
          req = Header_Set req ''origin'' ''https://chat.openai.com'';
          req = Header_Set req ''referer'' ''https://chat.openai.com/chat''
      in req)"

text \<open>
  \<open>SendMessage w c message\<close> is what the call returns or panics with, the conversation
  and the surroundings after it; \<open>None\<close> when the call never returns.
\<close>

definition SendMessage ::
  "World \<Rightarrow> Conversation \<Rightarrow> string \<Rightarrow> ((error + string) result \<times> Conversation \<times> World) option"
where
  "SendMessage w c message =
     (let (c, w) =
            (if Conversation.ParentMessageId c = ''''
             then (case NewString w of (u, w) \<Rightarrow> (c\<lparr>Conversation.ParentMessageId := u\<rparr>, w))
             else (c, w))
      in case RefreshAccessToken w (ChatGPT c) of
           (Some err, g, w) \<Rightarrow> Some (Return (Inl (ErrRefresh err)), c\<lparr>ChatGPT := g\<rparr>, w)
         | (None, g, w) \<Rightarrow>
             let c = c\<lparr>ChatGPT := g\<rparr>;
                 (u, w) = NewString w;
                 body = conversation_body c u message
             in case Reader body of
                  Inl err \<Rightarrow> Some (Return (Inl err), c, w)
                | Inr bodyReader \<Rightarrow>
                    (case Client_Do w (ChatGPT.Timeout (ChatGPT c))
                            (conversation_request (ChatGPT c) bodyReader) of
                       (Inl err, w) \<Rightarrow> Some (Return (Inl err), c, w)
                     | (Inr resp, w) \<Rightarrow>
                         if StatusCode resp \<noteq> 200
                         then Some (Return (Inl (ErrStatusBody (StatusCode resp)
                                                   (fst (ReadAll (Body resp))))), c, w)
                         else
                           (case SendMessage_loop (Body resp) '''' of
                              None \<Rightarrow> None
                            | Some (Inl err) \<Rightarrow> Some (Return (Inl err), c, w)
                            | Some (Inr respMessage) \<Rightarrow>
                                (case Unmarshal_ConversationResult w respMessage of
                                   Inl err \<Rightarrow> Some (Return (Inl err), c, w)
                                 | Inr result \<Rightarrow>
                                     let c = c\<lparr>Conversation.ParentMessageId :=
                                                 ConversationResult_Message.Id (Message result),
                                               Conversation.ConversationId :=
                                                 ConversationResult.ConversationId result\<rparr>
                                     in Some (GetMessage result, c, w)))))"

subsection \<open>Streams of lines\<close>

text \<open>
  The streams the properties of the loop speak of: a line \<open>data: p\<close> with a payload, or
  a line without the separator, each ended by a newline. A payload has no newline and is
  not the sentinel; a line without the separator has no newline either.
\<close>

datatype line = Data string | Other string

fun line_bytes :: "line \<Rightarrow> string" where
  "line_bytes (Data p) = ''data: '' @ p @ ''\<newline>''"
| "line_bytes (Other l) = l @ ''\<newline>''"

fun line_ok :: "line \<Rightarrow> bool" where
  "line_ok (Data p) = (CHR 0x0A \<notin> set p \<and> p \<noteq> ''[DONE]'')"
| "line_ok (Other l) = (CHR 0x0A \<notin> set l \<and> Index l delim = None)"

definition stream_of :: "line list \<Rightarrow> string" where
  "stream_of ls = concat (map line_bytes ls)"

fun payloads :: "line list \<Rightarrow> string list" where
  "payloads [] = []"
| "payloads (Data p # ls) = p # payloads ls"
| "payloads (Other l # ls) = payloads ls"

subsection \<open>A decoder of conversation results\<close>

text \<open>
  \<^verbatim>\<open>json.Unmarshal\<close> is a parameter of the model (a field of \<open>World\<close>), and the
  properties below hold for every decoder unless they say otherwise. Where a property
  speaks of the decoding of one given text, and in the examples, the decoder is
  \<open>json_Unmarshal_ConversationResult\<close>, a model of \<^verbatim>\<open>encoding/json\<close> on the struct
  \<open>ConversationResult\<close> of lines 156 to 175:
  \<^item> the text is checked against the JSON grammar first (white space, the three literals,
    numbers, strings with their escapes, arrays and objects nested at most 10000 deep), and
    a text outside it, the empty text among them, is a \<open>SyntaxError\<close>;
  \<^item> a string is unquoted to bytes: an escape \<open>\uXXXX\<close> to the UTF-8 of its code point,
    two escapes that are a surrogate pair to one code point, a lone surrogate and every
    byte that is not part of well-formed UTF-8 to U+FFFD;
  \<^item> the keys of an object are matched with the tags of the fields without regard to case
    (with the Kelvin sign for k and the long s for s), keys that match no field are skipped,
    and the keys are decoded in their order, a later one over an earlier one;
  \<^item> \<open>null\<close> leaves a string, a number or a struct as it is and empties a slice; a value
    of another kind than the field's is an \<open>UnmarshalTypeError\<close>, the first of which is
    returned once the whole document is decoded; so is a number that overflows
    \<^verbatim>\<open>float64\<close>, for \<open>weight\<close> and inside the fields of type \<^verbatim>\<open>interface{}\<close>;
  \<^item> a document that is \<open>null\<close> decodes to the zero struct without an error.

  One difference is known: when \<open>parts\<close> occurs three times or more in one message, Go
  may show in a later slice what an earlier, longer one left in its backing array; here
  an element decoded from \<open>null\<close> beyond the current length is the empty string.
\<close>

text \<open>
  The bytes are cut into tokens by one pass with a state: between tokens, inside a word (a
  number or a literal, checked when the word ends), inside a string, after a backslash, and
  inside the four hexadecimal digits of \<open>\u\<close>. A string is kept as its pieces, a raw byte
  \<open>B\<close> or the code unit \<open>U\<close> of an escape, and unquoted when it ends.
\<close>

datatype token = TLBrace | TRBrace | TLBrack | TRBrack | TColon | TComma | TStr string | TWord string

datatype piece = B char | U nat

datatype lexer = LIdle | LWord string | LStr "piece list" | LEsc "piece list" | LHex "piece list" "nat list"

definition is_space :: "char \<Rightarrow> bool" where
  "is_space c = (c = CHR '' '' \<or> c = CHR 0x09 \<or> c = CHR 0x0D \<or> c = CHR 0x0A)"

definition is_digit :: "char \<Rightarrow> bool" where
  "is_digit c = (48 \<le> (of_char c :: nat) \<and> (of_char c :: nat) \<le> 57)"

definition is_word_char :: "char \<Rightarrow> bool" where
  "is_word_char c =
     (let n = (of_char c :: nat)
      in (48 \<le> n \<and> n \<le> 57) \<or> (65 \<le> n \<and> n \<le> 90) \<or> (97 \<le> n \<and> n \<le> 122)
         \<or> c = CHR ''+'' \<or> c = CHR ''-'' \<or> c = CHR ''.'')"

definition hex_value :: "char \<Rightarrow> nat option" where
  "hex_value c =
     (let n = (of_char c :: nat)
      in if 48 \<le> n \<and> n \<le> 57 then Some (n - 48)
         else if 97 \<le> n \<and> n \<le> 102 then Some (n - 87)
         else if 65 \<le> n \<and> n \<le> 70 then Some (n - 55)
         else None)"

definition RuneError :: string where
  "RuneError = [CHR 0xEF, CHR 0xBF, CHR 0xBD]"

definition EncodeRune :: "nat \<Rightarrow> string" where
  "EncodeRune r =
     (if r < 0x80 then [char_of r]
      else if r < 0x800 then [char_of (0xC0 + r div 64), char_of (0x80 + r mod 64)]
      else if (0xD800 \<le> r \<and> r \<le> 0xDFFF) \<or> 0x10FFFF < r then RuneError
      else if r < 0x10000
        then [char_of (0xE0 + r div 4096), char_of (0x80 + r div 64 mod 64), char_of (0x80 + r mod 64)]
      else [char_of (0xF0 + r div 262144), char_of (0x80 + r div 4096 mod 64),
            char_of (0x80 + r div 64 mod 64), char_of (0x80 + r mod 64)])"

fun raw_prefix :: "piece list \<Rightarrow> nat list" where
  "raw_prefix (B c # us) = of_char c # raw_prefix us"
| "raw_prefix us = []"

definition cont :: "nat \<Rightarrow> bool" where
  "cont b = (0x80 \<le> b \<and> b \<le> 0xBF)"

definition rune_len4 :: "nat \<Rightarrow> nat \<Rightarrow> nat \<Rightarrow> nat \<Rightarrow> nat" where
  "rune_len4 b0 b1 b2 b3 =
     (if 0xC2 \<le> b0 \<and> b0 \<le> 0xDF then (if cont b1 then 2 else 0)
      else if b0 = 0xE0 then (if 0xA0 \<le> b1 \<and> b1 \<le> 0xBF \<and> cont b2 then 3 else 0)
      else if b0 = 0xED then (if 0x80 \<le> b1 \<and> b1 \<le> 0x9F \<and> cont b2 then 3 else 0)
      else if 0xE1 \<le> b0 \<and> b0 \<le> 0xEF then (if cont b1 \<and> cont b2 then 3 else 0)
      else if b0 = 0xF0 then (if 0x90 \<le> b1 \<and> b1 \<le> 0xBF \<and> cont b2 \<and> cont b3 then 4 else 0)
      else if b0 = 0xF4 then (if 0x80 \<le> b1 \<and> b1 \<le> 0x8F \<and> cont b2 \<and> cont b3 then 4 else 0)
      else if 0xF1 \<le> b0 \<and> b0 \<le> 0xF3 then (if cont b1 \<and> cont b2 \<and> cont b3 then 4 else 0)
      else 0)"

definition rune_len :: "nat list \<Rightarrow> nat" where
  "rune_len bs = (case bs @ [0, 0, 0] of b0 # b1 # b2 # b3 # _ \<Rightarrow> rune_len4 b0 b1 b2 b3 | _ \<Rightarrow> 0)"

function unquote :: "piece list \<Rightarrow> string" where
  "unquote [] = []"
| "unquote (U h # us) =
     (if 0xD800 \<le> h \<and> h \<le> 0xDFFF then
        (case us of
           U l # us' \<Rightarrow>
             if h \<le> 0xDBFF \<and> 0xDC00 \<le> l \<and> l \<le> 0xDFFF
             then EncodeRune (0x10000 + (h - 0xD800) * 1024 + (l - 0xDC00)) @ unquote us'
             else RuneError @ unquote us
         | _ \<Rightarrow> RuneError @ unquote us)
      else EncodeRune h @ unquote us)"
| "unquote (B c # us) =
     (if (of_char c :: nat) < 0x80 then c # unquote us
      else
        let n = rune_len (raw_prefix (B c # us))
        in if n = 0 then RuneError @ unquote us
           else c # map (\<lambda>u. case u of B d \<Rightarrow> d | U _ \<Rightarrow> c) (take (n - 1) us) @ unquote (drop (n - 1) us))"
  by pat_completeness auto
termination
  by (relation "measure length") auto

fun idle :: "char \<Rightarrow> token list \<Rightarrow> (lexer \<times> token list) option" where
  "idle c acc =
     (if is_space c then Some (LIdle, acc)
      else if c = CHR ''{'' then Some (LIdle, TLBrace # acc)
      else if c = CHR ''}'' then Some (LIdle, TRBrace # acc)
      else if c = CHR ''['' then Some (LIdle, TLBrack # acc)
      else if c = CHR '']'' then Some (LIdle, TRBrack # acc)
      else if c = CHR '':'' then Some (LIdle, TColon # acc)
      else if c = CHR '','' then Some (LIdle, TComma # acc)
      else if c = CHR 0x22 then Some (LStr [], acc)
      else if is_word_char c then Some (LWord [c], acc)
      else None)"

definition escape :: "char \<Rightarrow> char option" where
  "escape c =
     (if c = CHR 0x22 \<or> c = CHR 0x5C \<or> c = CHR ''/'' then Some c
      else if c = CHR ''b'' then Some (CHR 0x08)
      else if c = CHR ''f'' then Some (CHR 0x0C)
      else if c = CHR ''n'' then Some (CHR 0x0A)
      else if c = CHR ''r'' then Some (CHR 0x0D)
      else if c = CHR ''t'' then Some (CHR 0x09)
      else None)"

fun scan :: "lexer \<Rightarrow> token list \<Rightarrow> string \<Rightarrow> token list option" where
  "scan LIdle acc [] = Some (rev acc)"
| "scan (LWord w) acc [] = Some (rev (TWord (rev w) # acc))"
| "scan st acc [] = None"
| "scan LIdle acc (c # cs) =
     (case idle c acc of None \<Rightarrow> None | Some (st, acc') \<Rightarrow> scan st acc' cs)"
| "scan (LWord w) acc (c # cs) =
     (if is_word_char c then scan (LWord (c # w)) acc cs
      else case idle c (TWord (rev w) # acc) of None \<Rightarrow> None | Some (st, acc') \<Rightarrow> scan st acc' cs)"
| "scan (LStr ps) acc (c # cs) =
     (if c = CHR 0x22 then scan LIdle (TStr (unquote (rev ps)) # acc) cs
      else if c = CHR 0x5C then scan (LEsc ps) acc cs
      else if (of_char c :: nat) < 0x20 then None
      else scan (LStr (B c # ps)) acc cs)"
| "scan (LEsc ps) acc (c # cs) =
     (if c = CHR ''u'' then scan (LHex ps []) acc cs
      else case escape c of None \<Rightarrow> None | Some d \<Rightarrow> scan (LStr (U (of_char d) # ps)) acc cs)"
| "scan (LHex ps ds) acc (c # cs) =
     (case hex_value c of
        None \<Rightarrow> None
      | Some d \<Rightarrow>
          if length ds < 3 then scan (LHex ps (ds @ [d])) acc cs
          else scan (LStr (U (foldl (\<lambda>v x. v * 16 + x) 0 (ds @ [d])) # ps)) acc cs)"

fun digits :: "string \<Rightarrow> string" where
  "digits [] = []"
| "digits (c # cs) = (if is_digit c then c # digits cs else [])"

fun opt_char :: "char list \<Rightarrow> string \<Rightarrow> string" where
  "opt_char cs [] = []"
| "opt_char cs (x # xs) = (if x \<in> set cs then xs else x # xs)"

definition number_parts :: "string \<Rightarrow> (string \<times> string \<times> string option) option" where
  "number_parts w =
     (let w1 = opt_char [CHR ''-''] w;
          ip = digits w1;
          w2 = drop (length ip) w1
      in if ip = [] \<or> (hd ip = CHR ''0'' \<and> length ip \<noteq> 1) then None
         else
           (case (case w2 of
                    x # xs \<Rightarrow>
                      if x = CHR ''.''
                      then (if digits xs = [] then None
                            else Some (digits xs, drop (length (digits xs)) xs))
                      else Some ([], w2)
                  | [] \<Rightarrow> Some ([], [])) of
              None \<Rightarrow> None
            | Some (fp, w3) \<Rightarrow>
                (case w3 of
                   [] \<Rightarrow> Some (ip, fp, None)
                 | x # xs \<Rightarrow>
                     if x = CHR ''e'' \<or> x = CHR ''E''
                     then (let ex = opt_char [CHR ''+'', CHR ''-''] xs
                           in if ex \<noteq> [] \<and> digits ex = ex
                              then Some (ip, fp, Some xs) else None)
                     else None)))"

text \<open>
  The tokens are read with a stack of the arrays and objects that are open (an object with
  the key that waits for its value) and the kind of token that may come next.
\<close>

datatype frame = FArr "json list" | FObj "(string \<times> json) list" string

datatype mode = MValue | MValueOrClose | MKeyOrClose | MKey | MColon | MAfter | MDone json

definition maxNestingDepth :: nat where
  "maxNestingDepth = 10000"

fun push_value :: "json \<Rightarrow> frame list \<Rightarrow> frame list \<times> mode" where
  "push_value v [] = ([], MDone v)"
| "push_value v (FArr vs # st) = (FArr (v # vs) # st, MAfter)"
| "push_value v (FObj kvs k # st) = (FObj ((k, v) # kvs) k # st, MAfter)"

definition word_value :: "string \<Rightarrow> json option" where
  "word_value w =
     (if w = ''true'' then Some (JBool True)
      else if w = ''false'' then Some (JBool False)
      else if w = ''null'' then Some JNull
      else if number_parts w \<noteq> None then Some (JNumber w)
      else None)"

definition wants_value :: "mode \<Rightarrow> bool" where
  "wants_value m = (m = MValue \<or> m = MValueOrClose)"

fun step :: "token \<Rightarrow> frame list \<times> mode \<Rightarrow> (frame list \<times> mode) option" where
  "step TLBrack (st, m) =
     (if wants_value m \<and> length st < maxNestingDepth then Some (FArr [] # st, MValueOrClose) else None)"
| "step TLBrace (st, m) =
     (if wants_value m \<and> length st < maxNestingDepth then Some (FObj [] [] # st, MKeyOrClose) else None)"
| "step (TWord w) (st, m) =
     (if wants_value m then map_option (\<lambda>v. push_value v st) (word_value w) else None)"
| "step (TStr s) (st, m) =
     (if wants_value m then Some (push_value (JString s) st)
      else if m = MKeyOrClose \<or> m = MKey
      then (case st of FObj kvs k # st' \<Rightarrow> Some (FObj kvs s # st', MColon) | _ \<Rightarrow> None)
      else None)"
| "step TColon (st, m) = (if m = MColon then Some (st, MValue) else None)"
| "step TComma (st, m) =
     (if m = MAfter
      then (case st of FArr vs # st' \<Rightarrow> Some (st, MValue) | FObj kvs k # st' \<Rightarrow> Some (st, MKey) | [] \<Rightarrow> None)
      else None)"
| "step TRBrack (st, m) =
     (if m = MAfter \<or> m = MValueOrClose
      then (case st of FArr vs # st' \<Rightarrow> Some (push_value (JArray (rev vs)) st') | _ \<Rightarrow> None)
      else None)"
| "step TRBrace (st, m) =
     (if m = MAfter \<or> m = MKeyOrClose
      then (case st of FObj kvs k # st' \<Rightarrow> Some (push_value (JObject (rev kvs)) st') | _ \<Rightarrow> None)
      else None)"

fun run :: "token list \<Rightarrow> frame list \<times> mode \<Rightarrow> json option" where
  "run [] (st, m) = (case m of MDone v \<Rightarrow> Some v | _ \<Rightarrow> None)"
| "run (t # ts) sm = (case step t sm of None \<Rightarrow> None | Some sm' \<Rightarrow> run ts sm')"

definition parse_json :: "string \<Rightarrow> json option" where
  "parse_json data = (case scan LIdle [] data of None \<Rightarrow> None | Some ts \<Rightarrow> run ts ([], MValue))"

text \<open>
  Decoding a document into the struct. Every decoder takes the value the field holds and the
  error saved so far, and returns both; \<open>saveError\<close> keeps the first error.
\<close>

function foldName :: "string \<Rightarrow> string" where
  "foldName [] = []"
| "foldName (c # cs) =
     (if c = CHR 0xE2 \<and> take 2 cs = [CHR 0x84, CHR 0xAA] then CHR ''k'' # foldName (drop 2 cs)
      else if c = CHR 0xC5 \<and> take 1 cs = [CHR 0xBF] then CHR ''s'' # foldName (drop 1 cs)
      else if 65 \<le> (of_char c :: nat) \<and> (of_char c :: nat) \<le> 90
        then char_of ((of_char c :: nat) + 32) # foldName cs
      else c # foldName cs)"
  by pat_completeness auto
termination
  by (relation "measure length") auto

text \<open>
  A number overflows \<^verbatim>\<open>float64\<close> when it rounds to a magnitude of \<open>2 ^ 1024\<close>, that
  is when it is at least \<open>2 ^ 1024 - 2 ^ 970\<close>; the number is its digits times a power of
  ten.
\<close>

definition digits_value :: "string \<Rightarrow> int" where
  "digits_value ds = foldl (\<lambda>v c. v * 10 + (of_char c - 48)) 0 ds"

definition exponent_value :: "string \<Rightarrow> int" where
  "exponent_value xs =
     (case xs of
        [] \<Rightarrow> 0
      | x # ds \<Rightarrow>
          if x = CHR ''-'' then - digits_value ds
          else if x = CHR ''+'' then digits_value ds
          else digits_value xs)"

definition float64_overflow :: "string \<Rightarrow> bool" where
  "float64_overflow w =
     (case number_parts w of
        None \<Rightarrow> False
      | Some (ip, fp, ex) \<Rightarrow>
          let m = digits_value (ip @ fp);
              e = (case ex of None \<Rightarrow> 0 | Some xs \<Rightarrow> exponent_value xs) - int (length fp);
              limit = (2 :: int) ^ 1024 - 2 ^ 970
          in if 0 \<le> e then limit \<le> m * 10 ^ nat e else limit * 10 ^ nat (- e) \<le> m)"

fun numbers :: "json \<Rightarrow> string list" where
  "numbers (JNumber n) = [n]"
| "numbers (JArray vs) = concat (map numbers vs)"
| "numbers (JObject kvs) = concat (map (\<lambda>kv. numbers (snd kv)) kvs)"
| "numbers j = []"

fun kind :: "json \<Rightarrow> string" where
  "kind JNull = ''null''"
| "kind (JBool b) = ''bool''"
| "kind (JNumber n) = ''number''"
| "kind (JString s) = ''string''"
| "kind (JArray vs) = ''array''"
| "kind (JObject kvs) = ''object''"

definition saveError :: "error option \<Rightarrow> error \<Rightarrow> error option" where
  "saveError saved err = (case saved of None \<Rightarrow> Some err | Some e \<Rightarrow> Some e)"

definition decode_string :: "json \<Rightarrow> string \<times> error option \<Rightarrow> string \<times> error option" where
  "decode_string j v =
     (case j of
        JString s \<Rightarrow> (s, snd v)
      | JNull \<Rightarrow> v
      | _ \<Rightarrow> (fst v, saveError (snd v) (UnmarshalTypeError (kind j))))"

definition decode_float64 :: "json \<Rightarrow> string \<times> error option \<Rightarrow> string \<times> error option" where
  "decode_float64 j v =
     (case j of
        JNumber n \<Rightarrow>
          if float64_overflow n then (fst v, saveError (snd v) (UnmarshalTypeError (''number '' @ n)))
          else (n, snd v)
      | JNull \<Rightarrow> v
      | _ \<Rightarrow> (fst v, saveError (snd v) (UnmarshalTypeError (kind j))))"

definition decode_interface :: "json \<Rightarrow> json \<times> error option \<Rightarrow> json \<times> error option" where
  "decode_interface j v =
     (j, case find float64_overflow (numbers j) of
           None \<Rightarrow> snd v
         | Some n \<Rightarrow> saveError (snd v) (UnmarshalTypeError (''number '' @ n)))"

fun decode_elems :: "json list \<Rightarrow> nat \<Rightarrow> string list \<Rightarrow> error option \<Rightarrow> string list \<times> error option" where
  "decode_elems [] i cur saved = ([], saved)"
| "decode_elems (j # js) i cur saved =
     (case decode_string j (if i < length cur then cur ! i else '''', saved) of
        (s, saved') \<Rightarrow>
          (case decode_elems js (Suc i) cur saved' of (ss, saved'') \<Rightarrow> (s # ss, saved'')))"

definition decode_strings :: "json \<Rightarrow> string list \<times> error option \<Rightarrow> string list \<times> error option" where
  "decode_strings j v =
     (case j of
        JArray js \<Rightarrow> decode_elems js 0 (fst v) (snd v)
      | JNull \<Rightarrow> ([], snd v)
      | _ \<Rightarrow> (fst v, saveError (snd v) (UnmarshalTypeError (kind j))))"

definition decode_empty_struct :: "json \<Rightarrow> error option \<Rightarrow> error option" where
  "decode_empty_struct j saved =
     (case j of
        JObject kvs \<Rightarrow> saved
      | JNull \<Rightarrow> saved
      | _ \<Rightarrow> saveError saved (UnmarshalTypeError (kind j)))"

definition Content_field :: "Content \<times> error option \<Rightarrow> string \<times> json \<Rightarrow> Content \<times> error option" where
  "Content_field v kv =
     (let name = foldName (fst kv); c = fst v
      in if name = ''content_type''
         then (case decode_string (snd kv) (ContentType c, snd v) of
                 (s, saved) \<Rightarrow> (c\<lparr>ContentType := s\<rparr>, saved))
         else if name = ''parts''
         then (case decode_strings (snd kv) (Parts c, snd v) of
                 (ss, saved) \<Rightarrow> (c\<lparr>Parts := ss\<rparr>, saved))
         else v)"

definition decode_Content :: "json \<Rightarrow> Content \<times> error option \<Rightarrow> Content \<times> error option" where
  "decode_Content j v =
     (case j of
        JObject kvs \<Rightarrow> foldl Content_field v kvs
      | JNull \<Rightarrow> v
      | _ \<Rightarrow> (fst v, saveError (snd v) (UnmarshalTypeError (kind j))))"

definition Message_field ::
  "ConversationResult_Message \<times> error option \<Rightarrow> string \<times> json
     \<Rightarrow> ConversationResult_Message \<times> error option"
where
  "Message_field v kv =
     (let name = foldName (fst kv); m = fst v; j = snd kv
      in if name = ''id''
         then (case decode_string j (ConversationResult_Message.Id m, snd v) of
                 (s, saved) \<Rightarrow> (m\<lparr>ConversationResult_Message.Id := s\<rparr>, saved))
         else if name = ''role''
         then (case decode_string j (ConversationResult_Message.Role m, snd v) of
                 (s, saved) \<Rightarrow> (m\<lparr>ConversationResult_Message.Role := s\<rparr>, saved))
         else if name = ''user''
         then (case decode_interface j (ConversationResult_Message.User m, snd v) of
                 (x, saved) \<Rightarrow> (m\<lparr>ConversationResult_Message.User := x\<rparr>, saved))
         else if name = ''create_time''
         then (case decode_interface j (CreateTime m, snd v) of
                 (x, saved) \<Rightarrow> (m\<lparr>CreateTime := x\<rparr>, saved))
         else if name = ''update_time''
         then (case decode_interface j (UpdateTime m, snd v) of
                 (x, saved) \<Rightarrow> (m\<lparr>UpdateTime := x\<rparr>, saved))
         else if name = ''content''
         then (case decode_Content j (ConversationResult_Message.Content m, snd v) of
                 (x, saved) \<Rightarrow> (m\<lparr>ConversationResult_Message.Content := x\<rparr>, saved))
         else if name = ''end_turn''
         then (case decode_interface j (EndTurn m, snd v) of
                 (x, saved) \<Rightarrow> (m\<lparr>EndTurn := x\<rparr>, saved))
         else if name = ''weight''
         then (case decode_float64 j (Weight m, snd v) of
                 (x, saved) \<Rightarrow> (m\<lparr>Weight := x\<rparr>, saved))
         else if name = ''metadata''
         then (m, decode_empty_struct j (snd v))
         else if name = ''recipient''
         then (case decode_string j (Recipient m, snd v) of
                 (s, saved) \<Rightarrow> (m\<lparr>Recipient := s\<rparr>, saved))
         else v)"

definition decode_Message ::
  "json \<Rightarrow> ConversationResult_Message \<times> error option \<Rightarrow> ConversationResult_Message \<times> error option"
where
  "decode_Message j v =
     (case j of
        JObject kvs \<Rightarrow> foldl Message_field v kvs
      | JNull \<Rightarrow> v
      | _ \<Rightarrow> (fst v, saveError (snd v) (UnmarshalTypeError (kind j))))"

definition ConversationResult_field ::
  "ConversationResult \<times> error option \<Rightarrow> string \<times> json \<Rightarrow> ConversationResult \<times> error option"
where
  "ConversationResult_field v kv =
     (let name = foldName (fst kv); r = fst v; j = snd kv
      in if name = ''message''
         then (case decode_Message j (Message r, snd v) of
                 (x, saved) \<Rightarrow> (r\<lparr>Message := x\<rparr>, saved))
         else if name = ''conversation_id''
         then (case decode_string j (ConversationResult.ConversationId r, snd v) of
                 (s, saved) \<Rightarrow> (r\<lparr>ConversationResult.ConversationId := s\<rparr>, saved))
         else if name = ''error''
         then (case decode_interface j (ConversationResult.Error r, snd v) of
                 (x, saved) \<Rightarrow> (r\<lparr>ConversationResult.Error := x\<rparr>, saved))
         else v)"

definition decode_ConversationResult ::
  "json \<Rightarrow> ConversationResult \<times> error option \<Rightarrow> ConversationResult \<times> error option"
where
  "decode_ConversationResult j v =
     (case j of
        JObject kvs \<Rightarrow> foldl ConversationResult_field v kvs
      | JNull \<Rightarrow> v
      | _ \<Rightarrow> (fst v, saveError (snd v) (UnmarshalTypeError (kind j))))"

definition zero_ConversationResult :: ConversationResult where
  "zero_ConversationResult =
     \<lparr>Message = \<lparr>ConversationResult_Message.Id = '''', ConversationResult_Message.Role = '''',
                  ConversationResult_Message.User = JNull, CreateTime = JNull, UpdateTime = JNull,
                  ConversationResult_Message.Content = \<lparr>ContentType = '''', Parts = []\<rparr>,
                  EndTurn = JNull, Weight = ''0'', Recipient = ''''\<rparr>,
      ConversationResult.ConversationId = '''',
      ConversationResult.Error = JNull\<rparr>"

definition json_Unmarshal_ConversationResult :: "string \<Rightarrow> error + ConversationResult" where
  "json_Unmarshal_ConversationResult data =
     (case parse_json data of
        None \<Rightarrow> Inl SyntaxError
      | Some j \<Rightarrow>
          (case decode_ConversationResult j (zero_ConversationResult, None) of
             (result, None) \<Rightarrow> Inr result
           | (result, Some err) \<Rightarrow> Inl err))"

subsection \<open>Example surroundings\<close>

text \<open>
  A world for the examples: the conversation endpoint answers every request with status
  200 and the given body, which then ends; the session endpoint is out of reach (the
  request fails in the transport), so no session body is ever decoded there and the
  decoder of session bodies is one that rejects every text.
\<close>

definition uuid0 :: string where
  "uuid0 = ''6ba7b810-9dad-41d1-80b4-00c04fd430c8''"

definition uuid1 :: string where
  "uuid1 = ''6ba7b811-9dad-41d1-80b4-00c04fd430c8''"

definition example_world :: "string \<Rightarrow> World" where
  "example_world body =
     \<lparr>Now = 1000,
      uuids = (\<lambda>n. if n = 0 then uuid0 else uuid1),
      uuid_next = 0,
      Do = (\<lambda>t req.
              if URL req = ''https://chat.openai.com/backend-api/conversation''
              then Inr \<lparr>StatusCode = 200, Body = \<lparr>content = body, fault = None\<rparr>\<rparr>
              else Inl (ErrTransport ''connection refused'')),
      sent = [],
      Unmarshal_SessionResult = (\<lambda>b. Inl SyntaxError),
      Unmarshal_ConversationResult = json_Unmarshal_ConversationResult\<rparr>"

definition example_client :: "Time \<Rightarrow> ChatGPT" where
  \<comment> \<open>a client whose cached token expires at the given instant\<close>
  "example_client expires =
     \<lparr>ChatGPT.SessionToken = ''session'', ChatGPT.ClearanceToken = ''clearance'',
      ChatGPT.AccessToken = ''token'', ChatGPT.AccessTokenExpires = expires,
      ChatGPT.Log = None, ChatGPT.Timeout = 10000000000, ChatGPT.UserAgent = ''agent''\<rparr>"

definition example_conversation :: "Time \<Rightarrow> string \<Rightarrow> string \<Rightarrow> Conversation" where
  "example_conversation expires conversationId parentMessageId =
     \<lparr>ChatGPT = example_client expires,
      Conversation.ConversationId = conversationId,
      Conversation.ParentMessageId = parentMessageId\<rparr>"

definition hello_payload :: string where
  "hello_payload =
     ''{\"message\":{\"id\":\"m2\",\"content\":{\"parts\":[\"Hello!\"]}},\"conversation_id\":\"c1\"}''"

definition hello_result :: ConversationResult where
  "hello_result =
     zero_ConversationResult
       \<lparr>Message := (Message zero_ConversationResult)
          \<lparr>ConversationResult_Message.Id := ''m2'',
            ConversationResult_Message.Content := \<lparr>ContentType = '''', Parts = [''Hello!'']\<rparr>\<rparr>,
        ConversationResult.ConversationId := ''c1''\<rparr>"

definition no_parts_payload :: string where
  "no_parts_payload = ''{\"message\":{\"content\":{\"parts\":[]}}}''"

definition hello_stream :: string where
  "hello_stream = ''data: '' @ hello_payload @ ''\<newline>\<newline>data: [DONE]\<newline>\<newline>''"

definition no_parts_stream :: string where
  "no_parts_stream = ''data: '' @ no_parts_payload @ ''\<newline>\<newline>data: [DONE]\<newline>\<newline>''"

definition done_stream :: string where
  "done_stream = ''data: [DONE]\<newline>\<newline>''"

definition example_world_status :: "int \<Rightarrow> string \<Rightarrow> World" where
  \<comment> \<open>a world in which every request is answered with the given status and body\<close>
  "example_world_status status body =
     (example_world body)
       \<lparr>Do := (\<lambda>t req. Inr \<lparr>StatusCode = status, Body = \<lparr>content = body, fault = None\<rparr>\<rparr>)\<rparr>"

section \<open>Properties\<close>

subsection \<open>Construction\<close>

text \<open>
  C8. \<open>NewChatGPT\<close> fails exactly when one of the session token, the clearance token and the
  user agent is the empty string, whatever the other fields are. When none is empty it returns
  a client that holds the three values, an empty token cache, the logger, and as timeout the
  override when one is given and ten seconds otherwise.
\<close>

theorem NewChatGPT_fails_iff_required_field_empty:
  "((\<exists>e. NewChatGPT options = Inl e) \<longleftrightarrow>
      (ChatGPTOptions.SessionToken options = '''' \<or> ChatGPTOptions.ClearanceToken options = ''''
         \<or> ChatGPTOptions.UserAgent options = ''''))
   \<and> (ChatGPTOptions.SessionToken options \<noteq> '''' \<and> ChatGPTOptions.ClearanceToken options \<noteq> ''''
         \<and> ChatGPTOptions.UserAgent options \<noteq> '''' \<longrightarrow>
       (\<exists>c. NewChatGPT options = Inr c
          \<and> ChatGPT.SessionToken c = ChatGPTOptions.SessionToken options
          \<and> ChatGPT.ClearanceToken c = ChatGPTOptions.ClearanceToken options
          \<and> ChatGPT.UserAgent c = ChatGPTOptions.UserAgent options
          \<and> ChatGPT.Log c = ChatGPTOptions.Log options
          \<and> ChatGPT.AccessToken c = ''''
          \<and> ChatGPT.Timeout c =
              (case ChatGPTOptions.Timeout options of Some t \<Rightarrow> t | None \<Rightarrow> 10 * Second)))"
  by (auto simp: NewChatGPT_def Let_def split: option.splits)

theorem NewChatGPT_examples:
  "(\<exists>c. NewChatGPT \<lparr>SessionToken = ''s'', ClearanceToken = ''cf'', UserAgent = ''ua'',
                        Log = None, Timeout = None\<rparr> = Inr c
        \<and> ChatGPT.Timeout c = 10000000000)
   \<and> (\<exists>c. NewChatGPT \<lparr>SessionToken = ''s'', ClearanceToken = ''cf'', UserAgent = ''ua'',
                        Log = None, Timeout = Some 250\<rparr> = Inr c
        \<and> ChatGPT.Timeout c = 250)
   \<and> (\<exists>e. NewChatGPT \<lparr>SessionToken = ''s'', ClearanceToken = '''', UserAgent = ''ua'',
                        Log = None, Timeout = None\<rparr> = Inl e)"
  using NewChatGPT_fails_iff_required_field_empty
          [of "\<lparr>SessionToken = ''s'', ClearanceToken = ''cf'', UserAgent = ''ua'',
                Log = None, Timeout = None\<rparr>"]
        NewChatGPT_fails_iff_required_field_empty
          [of "\<lparr>SessionToken = ''s'', ClearanceToken = ''cf'', UserAgent = ''ua'',
                Log = None, Timeout = Some 250\<rparr>"]
        NewChatGPT_fails_iff_required_field_empty
          [of "\<lparr>SessionToken = ''s'', ClearanceToken = '''', UserAgent = ''ua'',
                Log = None, Timeout = None\<rparr>"]
  by (auto simp: Second_def)

subsection \<open>The loop over the lines of the response\<close>

lemma IndexByte_None: "c \<notin> set s \<Longrightarrow> IndexByte s c = None"
  by (induction s) auto

lemma IndexByte_append: "c \<notin> set s \<Longrightarrow> IndexByte (s @ c # r) c = Some (length s)"
  by (induction s) auto

lemma ReadBytes_line:
  "CHR 0x0A \<notin> set s \<Longrightarrow>
   ReadBytes \<lparr>content = s @ CHR 0x0A # r, fault = f\<rparr> (CHR 0x0A)
     = ((s @ ''\<newline>'', None), \<lparr>content = r, fault = f\<rparr>)"
  by (simp add: ReadBytes_def IndexByte_append)

lemma ReadBytes_tail:
  "CHR 0x0A \<notin> set (content br) \<Longrightarrow>
   ReadBytes br (CHR 0x0A)
     = ((content br, Some (case fault br of None \<Rightarrow> ErrEOF | Some e \<Rightarrow> e)), br\<lparr>content := []\<rparr>)"
  by (simp add: ReadBytes_def IndexByte_None)

lemma Index_newline: "Index l delim = None \<Longrightarrow> Index (l @ ''\<newline>'') delim = None"
proof (induction l)
  case Nil
  then show ?case by (simp add: delim_def)
next
  case (Cons a l)
  then show ?case by (cases l) (auto simp: delim_def split: if_splits)
qed

lemma Index_data: "Index (''data: '' @ p) delim = Some 4"
  by (simp add: delim_def)

lemma TrimSuffix_newline: "TrimSuffix (p @ ''\<newline>'') ''\<newline>'' = p"
  by (simp add: TrimSuffix_def)

lemma loop_Other:
  assumes "line_ok (Other l)"
  shows "SendMessage_loop \<lparr>content = line_bytes (Other l) @ r, fault = f\<rparr> m
           = SendMessage_loop \<lparr>content = r, fault = f\<rparr> m"
  using assms
  by (subst SendMessage_loop.simps)
     (simp add: ReadBytes_line SplitN_2_def Index_newline[simplified])

lemma loop_Data:
  assumes "line_ok (Data p)"
  shows "SendMessage_loop \<lparr>content = line_bytes (Data p) @ r, fault = f\<rparr> m
           = SendMessage_loop \<lparr>content = r, fault = f\<rparr> p"
proof -
  have nl: "CHR 0x0A \<notin> set (''data: '' @ p)" using assms by simp
  have rb: "ReadBytes \<lparr>content = (''data: '' @ p) @ CHR 0x0A # r, fault = f\<rparr> (CHR 0x0A)
     = (((''data: '' @ p) @ ''\<newline>'', None), \<lparr>content = r, fault = f\<rparr>)"
    by (rule ReadBytes_line[OF nl])
  have ix: "Index ((''data: '' @ p) @ ''\<newline>'') delim = Some 4"
    using Index_data[of "p @ ''\<newline>''"] by simp
  show ?thesis
    using assms rb ix
    by (subst SendMessage_loop.simps)
       (simp add: SplitN_2_def delim_def TrimSuffix_def)
qed

lemma loop_DONE:
  "SendMessage_loop \<lparr>content = ''data: [DONE]\<newline>'' @ r, fault = f\<rparr> m = Some (Inr m)"
proof -
  have rb: "ReadBytes \<lparr>content = ''data: [DONE]'' @ CHR 0x0A # r, fault = f\<rparr> (CHR 0x0A)
     = ((''data: [DONE]'' @ ''\<newline>'', None), \<lparr>content = r, fault = f\<rparr>)"
    by (rule ReadBytes_line) simp
  show ?thesis
    using rb
    by (subst SendMessage_loop.simps)
       (simp add: SplitN_2_def delim_def TrimSuffix_def)
qed

lemma loop_lines:
  "\<forall>l \<in> set ls. line_ok l \<Longrightarrow>
   SendMessage_loop \<lparr>content = stream_of ls @ r, fault = f\<rparr> m
     = SendMessage_loop \<lparr>content = r, fault = f\<rparr> (if payloads ls = [] then m else last (payloads ls))"
proof (induction ls arbitrary: m)
  case Nil
  then show ?case by (simp add: stream_of_def)
next
  case (Cons a ls)
  then have ok: "line_ok a" and rest: "\<forall>l \<in> set ls. line_ok l" by simp_all
  show ?case
  proof (cases a)
    case (Data p)
    have "SendMessage_loop \<lparr>content = stream_of (a # ls) @ r, fault = f\<rparr> m
        = SendMessage_loop \<lparr>content = stream_of ls @ r, fault = f\<rparr> p"
      using loop_Data[of p "stream_of ls @ r" f m] ok Data by (simp add: stream_of_def)
    then show ?thesis using Cons.IH[OF rest, of p] Data by simp
  next
    case (Other l)
    have "SendMessage_loop \<lparr>content = stream_of (a # ls) @ r, fault = f\<rparr> m
        = SendMessage_loop \<lparr>content = stream_of ls @ r, fault = f\<rparr> m"
      using loop_Other[of l "stream_of ls @ r" f m] ok Other by (simp add: stream_of_def)
    then show ?thesis using Cons.IH[OF rest, of m] Other by simp
  qed
qed

lemma loop_tail_aux:
  assumes "SendMessage_loop br m = Some y"
  shows "\<not> (CHR 0x0A \<notin> set (content br) \<and> (length (content br) < 2 \<or> Index (content br) delim = None)
      \<and> (fault br = None \<or> fault br = Some ErrEOF))"
proof (rule SendMessage_loop.raw_induct[where P = "\<lambda>br m y. \<not> (CHR 0x0A \<notin> set (content br)
      \<and> (length (content br) < 2 \<or> Index (content br) delim = None)
      \<and> (fault br = None \<or> fault br = Some ErrEOF))", OF _ assms])
  fix loop :: "Body \<Rightarrow> string \<Rightarrow> (error + string) option" and br m y
  assume IH: "\<And>br m y. loop br m = Some y \<Longrightarrow> \<not> (CHR 0x0A \<notin> set (content br)
      \<and> (length (content br) < 2 \<or> Index (content br) delim = None)
      \<and> (fault br = None \<or> fault br = Some ErrEOF))"
  assume step: "(case ReadBytes br (CHR 0x0A) of
        ((bs, err), br') \<Rightarrow>
          if err \<noteq> None \<and> err \<noteq> Some ErrEOF then Some (Inl (the err))
          else if length bs < 2 then loop br' m
          else
            let spl = SplitN_2 bs delim in
            if length spl < 2 then loop br' m
            else
              let value = TrimSuffix (spl ! 1) ''\<newline>'' in
              if err = Some ErrEOF \<or> value = ''[DONE]'' then Some (Inr m)
              else loop br' value) = Some y"
  show "\<not> (CHR 0x0A \<notin> set (content br) \<and> (length (content br) < 2 \<or> Index (content br) delim = None)
      \<and> (fault br = None \<or> fault br = Some ErrEOF))"
  proof
    assume a: "CHR 0x0A \<notin> set (content br) \<and> (length (content br) < 2 \<or> Index (content br) delim = None)
      \<and> (fault br = None \<or> fault br = Some ErrEOF)"
    then have "loop (br\<lparr>content := []\<rparr>) m = Some y"
      using step by (auto simp: ReadBytes_tail SplitN_2_def split: option.splits if_splits)
    from IH[OF this] a show False by simp
  qed
qed

lemma loop_tail:
  assumes "CHR 0x0A \<notin> set t" "length t < 2 \<or> Index t delim = None"
  shows "SendMessage_loop \<lparr>content = t, fault = None\<rparr> m = None"
proof (cases "SendMessage_loop \<lparr>content = t, fault = None\<rparr> m")
  case None then show ?thesis .
next
  case (Some y)
  from loop_tail_aux[OF Some] assms show ?thesis by simp
qed

text \<open>
  C1. The loop is not left on every stream. When the stream ends after lines that each end
  in a newline, none of them the sentinel, the read at the end of the stream yields no bytes
  and \<^verbatim>\<open>io.EOF\<close>; the loop continues at line 269 before it reaches the test for
  \<^verbatim>\<open>io.EOF\<close> of line 280, reads the same again, and so for ever. The same holds when
  the bytes after the last newline are fewer than two or hold no separator (line 275). The
  empty stream is the case of no line and no byte.
\<close>

theorem SendMessage_loop_never_left_at_end_of_stream:
  assumes "\<forall>l \<in> set ls. line_ok l"
    and "CHR 0x0A \<notin> set t"
    and "length t < 2 \<or> Index t delim = None"
  shows "SendMessage_loop \<lparr>content = stream_of ls @ t, fault = None\<rparr> m = None"
  using loop_lines[OF assms(1), of t None m] loop_tail[OF assms(2,3)] by simp

theorem SendMessage_loop_never_left_examples:
  "SendMessage_loop \<lparr>content = '''', fault = None\<rparr> '''' = None
   \<and> SendMessage_loop \<lparr>content = ''data: {}\<newline>'', fault = None\<rparr> '''' = None"
  using SendMessage_loop_never_left_at_end_of_stream[of "[]" "''''" "''''"]
        SendMessage_loop_never_left_at_end_of_stream[of "[Data ''{}'']" "''''" "''''"]
  by (simp add: stream_of_def)

text \<open>
  C5. On a stream of lines that are \<open>data: p\<close> lines or lines without the separator (a
  line of fewer than two bytes, the newline alone, is one of them), followed by the line
  \<open>data: [DONE]\<close>, the loop is left with the payload of the last \<open>data: \<close> line before
  the sentinel; the lines without the separator change nothing, and with no \<open>data: \<close>
  line at all the candidate is the one the loop started with. What follows the sentinel is
  not read.
\<close>

theorem SendMessage_loop_selects_last_payload:
  assumes "\<forall>l \<in> set ls. line_ok l"
  shows "SendMessage_loop \<lparr>content = stream_of ls @ ''data: [DONE]\<newline>'' @ rest, fault = f\<rparr> m
           = Some (Inr (if payloads ls = [] then m else last (payloads ls)))"
  using loop_lines[OF assms, of "''data: [DONE]\<newline>'' @ rest" f m] loop_DONE[of rest f]
  by simp

theorem SendMessage_loop_selects_last_payload_example:
  "SendMessage_loop
     \<lparr>content = ''data: {1}\<newline>\<newline>x\<newline>event\<newline>data: {2}\<newline>\<newline>data: [DONE]\<newline>\<newline>'',
      fault = None\<rparr> ''''
     = Some (Inr ''{2}'')"
  using SendMessage_loop_selects_last_payload
          [of "[Data ''{1}'', Other '''', Other ''x'', Other ''event'', Data ''{2}'', Other '''']"
              "''\<newline>''" None "''''"]
  by (simp add: stream_of_def delim_def)

subsection \<open>The request body\<close>

text \<open>
  C9. The body \<open>SendMessage\<close> serialises has the key \<open>conversation_id\<close> exactly when the
  conversation's id is not the empty string, and then its value is that id; otherwise the
  keys are the four others and no more. The same holds of the serialisation of any
  \<open>ConversationBody\<close>.
\<close>

theorem conversation_id_key_iff_known:
  "(''conversation_id'' \<in> set (keys (Marshal_ConversationBody (conversation_body c u message)))
      \<longleftrightarrow> Conversation.ConversationId c \<noteq> '''')
   \<and> keys (Marshal_ConversationBody (conversation_body c u message))
       = [''action'', ''messages'', ''parent_message_id'', ''model'']
         @ (if Conversation.ConversationId c = '''' then [] else [''conversation_id''])
   \<and> (''conversation_id'' \<in> set (keys (Marshal_ConversationBody b))
      \<longleftrightarrow> ConversationBody.ConversationId b \<noteq> '''')
   \<and> Reader b = Inr (Marshal_ConversationBody b)"
  by (simp add: keys_def Marshal_ConversationBody_def conversation_body_def Reader_def)

subsection \<open>The access token\<close>

lemma Refresh_world:
  assumes "RefreshAccessToken w g = (e, g', w')"
  shows "Unmarshal_ConversationResult w' = Unmarshal_ConversationResult w
       \<and> uuids w' = uuids w \<and> uuid_next w' = uuid_next w \<and> Do w' = Do w \<and> Now w' = Now w"
  using assms
  by (auto simp: RefreshAccessToken_def Client_Do_def ReadAll_def
      split: if_splits sum.splits option.splits prod.splits)

lemma Refresh_uuid_next:
  "RefreshAccessToken (w\<lparr>uuid_next := n\<rparr>) g =
     (case RefreshAccessToken w g of (e, g', w') \<Rightarrow> (e, g', w'\<lparr>uuid_next := n\<rparr>))"
  by (auto simp: RefreshAccessToken_def IsAccessTokenExpired_def Client_Do_def ReadAll_def
      split: if_splits sum.splits option.splits prod.splits)

text \<open>
  C4 (as the code has it). The cached token counts as expired exactly when the current time
  is strictly after \<open>AccessTokenExpires\<close>: at the instant the two are equal it still counts
  as valid, and no refresh is done. \<open>RefreshAccessToken\<close> sends the session request
  exactly when the token is the empty string or the current time is strictly after the
  expiry.
\<close>

theorem token_expired_iff_strictly_after:
  "(IsAccessTokenExpired w c \<longleftrightarrow> ChatGPT.AccessTokenExpires c < Now w)
   \<and> sent (snd (snd (RefreshAccessToken w c))) =
       (if ChatGPT.AccessToken c = '''' \<or> ChatGPT.AccessTokenExpires c < Now w
        then sent w @ [session_request c] else sent w)"
  by (auto simp: RefreshAccessToken_def IsAccessTokenExpired_def After_def Client_Do_def ReadAll_def
      split: sum.splits option.splits prod.splits)

text \<open>
  The claim C4 as stated fails: with the current time equal to the expiry, the token is not
  expired and the call of \<open>RefreshAccessToken\<close> sends nothing.
\<close>

theorem token_not_expired_at_expiry:
  "Now (example_world '''') = ChatGPT.AccessTokenExpires (example_client 1000)
   \<and> \<not> IsAccessTokenExpired (example_world '''') (example_client 1000)
   \<and> RefreshAccessToken (example_world '''') (example_client 1000)
       = (None, example_client 1000, example_world '''')"
  by (simp add: RefreshAccessToken_def IsAccessTokenExpired_def After_def example_world_def
      example_client_def)

text \<open>
  C7. With a token that is not the empty string and an expiry that the current time has not
  passed, \<open>RefreshAccessToken\<close> returns no error, sends no request, and leaves the client
  (the token and its expiry among its fields) and the surroundings as they were; so a second
  call does the same.
\<close>

theorem RefreshAccessToken_cached:
  assumes "ChatGPT.AccessToken c \<noteq> ''''" and "Now w \<le> ChatGPT.AccessTokenExpires c"
  shows "RefreshAccessToken w c = (None, c, w)
       \<and> sent (snd (snd (RefreshAccessToken w c))) = sent w"
  using assms by (simp add: RefreshAccessToken_def IsAccessTokenExpired_def After_def)

theorem RefreshAccessToken_cached_example:
  "RefreshAccessToken (example_world '''') (example_client 2000)
     = (None, example_client 2000, example_world '''')
   \<and> sent (snd (snd (RefreshAccessToken (example_world '''') (example_client 2000)))) = []"
  using RefreshAccessToken_cached[of "example_client 2000" "example_world ''''"]
  by (simp add: example_client_def example_world_def)

subsection \<open>SendMessage\<close>

lemma decode_hello: "json_Unmarshal_ConversationResult hello_payload = Inr hello_result"
  unfolding hello_payload_def hello_result_def by code_simp

lemma decode_no_parts:
  "json_Unmarshal_ConversationResult no_parts_payload = Inr zero_ConversationResult"
  unfolding no_parts_payload_def by code_simp

lemma decode_empty: "json_Unmarshal_ConversationResult '''' = Inl SyntaxError"
  by code_simp

lemma GetMessage_not_error: "GetMessage result \<noteq> Return (Inl err)"
  by (simp add: GetMessage_def split: list.splits)

lemma URL_conversation_request:
  "URL (conversation_request g body) = ''https://chat.openai.com/backend-api/conversation''"
  by (simp add: conversation_request_def Header_Set_def NewRequest_def)

lemma SendMessage_200:
  assumes ok: "fst (RefreshAccessToken w (ChatGPT c)) = None"
    and srv: "\<forall>t req. URL req = ''https://chat.openai.com/backend-api/conversation''
                \<longrightarrow> Do w t req = Inr \<lparr>StatusCode = 200, Body = b\<rparr>"
  shows "\<exists>c2 w2.
           Conversation.ConversationId c2 = Conversation.ConversationId c
           \<and> Conversation.ParentMessageId c2 =
               (if Conversation.ParentMessageId c = '''' then uuids w (uuid_next w)
                else Conversation.ParentMessageId c)
           \<and> SendMessage w c message =
               (case SendMessage_loop b '''' of
                  None \<Rightarrow> None
                | Some (Inl err) \<Rightarrow> Some (Return (Inl err), c2, w2)
                | Some (Inr respMessage) \<Rightarrow>
                    (case Unmarshal_ConversationResult w respMessage of
                       Inl err \<Rightarrow> Some (Return (Inl err), c2, w2)
                     | Inr result \<Rightarrow>
                         Some (GetMessage result,
                               c2\<lparr>Conversation.ParentMessageId :=
                                     ConversationResult_Message.Id (Message result),
                                   Conversation.ConversationId :=
                                     ConversationResult.ConversationId result\<rparr>,
                               w2)))"
proof -
  obtain g' w' where r: "RefreshAccessToken w (ChatGPT c) = (None, g', w')"
    using ok by (cases "RefreshAccessToken w (ChatGPT c)") auto
  from Refresh_world[OF r]
  have same: "Unmarshal_ConversationResult w' = Unmarshal_ConversationResult w"
    "Do w' = Do w" "uuids w' = uuids w" "uuid_next w' = uuid_next w" by simp_all
  show ?thesis
    apply (rule exI[where x = "(if Conversation.ParentMessageId c = []
                                then c\<lparr>Conversation.ParentMessageId := uuids w (uuid_next w)\<rparr>
                                else c)\<lparr>ChatGPT := g'\<rparr>"])
    using r same srv
    by (auto simp: SendMessage_def NewString_def Client_Do_def Reader_def Let_def
        Refresh_uuid_next URL_conversation_request
        split: sum.splits option.splits prod.splits)
qed

lemma SendMessage_refresh_fails:
  assumes "fst (RefreshAccessToken w (ChatGPT c)) = Some err"
  shows "\<exists>c' w'. SendMessage w c message = Some (Return (Inl (ErrRefresh err)), c', w')"
proof -
  obtain g' w' where r: "RefreshAccessToken w (ChatGPT c) = (Some err, g', w')"
    using assms by (cases "RefreshAccessToken w (ChatGPT c)") auto
  show ?thesis
    using r
    by (auto simp: SendMessage_def NewString_def Let_def Refresh_uuid_next
        split: sum.splits option.splits prod.splits)
qed

lemma served:
  "\<forall>t req. URL req = ''https://chat.openai.com/backend-api/conversation''
     \<longrightarrow> Do (example_world body) t req
           = Inr \<lparr>StatusCode = 200, Body = \<lparr>content = body, fault = None\<rparr>\<rparr>"
  by (simp add: example_world_def)

lemma refresh_example:
  "fst (RefreshAccessToken (example_world body)
          (ChatGPT (example_conversation 2000 conversationId parentMessageId))) = None"
  by (simp add: RefreshAccessToken_def IsAccessTokenExpired_def After_def example_world_def
      example_conversation_def example_client_def)

lemma newline_hello: "CHR 0x0A \<notin> set hello_payload" "hello_payload \<noteq> ''[DONE]''"
  by (simp_all add: hello_payload_def)

lemma newline_no_parts: "CHR 0x0A \<notin> set no_parts_payload" "no_parts_payload \<noteq> ''[DONE]''"
  by (simp_all add: no_parts_payload_def)

lemma hello_stream_lines:
  "hello_stream = stream_of [Data hello_payload, Other ''''] @ ''data: [DONE]\<newline>'' @ ''\<newline>''"
  by (simp add: hello_stream_def stream_of_def)

lemma no_parts_stream_lines:
  "no_parts_stream = stream_of [Data no_parts_payload, Other ''''] @ ''data: [DONE]\<newline>'' @ ''\<newline>''"
  by (simp add: no_parts_stream_def stream_of_def)

lemma loop_hello:
  "SendMessage_loop \<lparr>content = hello_stream, fault = None\<rparr> '''' = Some (Inr hello_payload)"
  unfolding hello_stream_lines
  using loop_lines[of "[Data hello_payload, Other '''']" "''data: [DONE]\<newline>'' @ ''\<newline>''" None "''''"]
        loop_DONE[of "''\<newline>''" None hello_payload] newline_hello
  by (simp add: delim_def)

lemma loop_no_parts:
  "SendMessage_loop \<lparr>content = no_parts_stream, fault = None\<rparr> '''' = Some (Inr no_parts_payload)"
  unfolding no_parts_stream_lines
  using loop_lines[of "[Data no_parts_payload, Other '''']" "''data: [DONE]\<newline>'' @ ''\<newline>''" None "''''"]
        loop_DONE[of "''\<newline>''" None no_parts_payload] newline_no_parts
  by (simp add: delim_def)

lemma loop_done:
  "SendMessage_loop \<lparr>content = done_stream, fault = None\<rparr> '''' = Some (Inr '''')"
  using loop_DONE[of "''\<newline>''" None "''''"] by (simp add: done_stream_def)

lemmas run_defs = SendMessage_def NewString_def example_world_def example_conversation_def
      example_client_def RefreshAccessToken_def IsAccessTokenExpired_def After_def Client_Do_def
      Reader_def URL_conversation_request Let_def

lemma run_hello:
  "SendMessage (example_world hello_stream) (example_conversation 2000 '''' '''') ''Hi''
     = Some (Return (Inr ''Hello!''),
             example_conversation 2000 ''c1'' ''m2'',
             (example_world hello_stream)
               \<lparr>uuid_next := 2,
                 sent := [conversation_request (example_client 2000)
                            (Marshal_ConversationBody
                               (conversation_body (example_conversation 2000 '''' uuid0) uuid1 ''Hi''))]\<rparr>)"
  by (simp add: run_defs loop_hello decode_hello hello_result_def zero_ConversationResult_def
      GetMessage_def)

lemma run_done:
  "SendMessage (example_world done_stream) (example_conversation 2000 ''c0'' ''m1'') ''Hi''
     = Some (Return (Inl SyntaxError),
             example_conversation 2000 ''c0'' ''m1'',
             (example_world done_stream)
               \<lparr>uuid_next := 1,
                 sent := [conversation_request (example_client 2000)
                            (Marshal_ConversationBody
                               (conversation_body (example_conversation 2000 ''c0'' ''m1'') uuid0 ''Hi''))]\<rparr>)"
  by (simp add: run_defs loop_done decode_empty)

lemma run_no_parts:
  "SendMessage (example_world no_parts_stream) (example_conversation 2000 ''c0'' ''m1'') ''Hi''
     = Some (Panic ''index out of range [0] with length 0'',
             example_conversation 2000 '''' '''',
             (example_world no_parts_stream)
               \<lparr>uuid_next := 1,
                 sent := [conversation_request (example_client 2000)
                            (Marshal_ConversationBody
                               (conversation_body (example_conversation 2000 ''c0'' ''m1'') uuid0 ''Hi''))]\<rparr>)"
  by (simp add: run_defs loop_no_parts decode_no_parts zero_ConversationResult_def GetMessage_def)

text \<open>
  C3 (as the code has it). When \<open>SendMessage\<close> returns the text of the reply, both fields of
  the linkage hold the message id and the conversation id of the decoded reply. When it
  returns an error, \<open>ConversationId\<close> holds what it held before the call, and
  \<open>ParentMessageId\<close> holds what it held before the call if that was not the empty string,
  and otherwise the identifier drawn at lines 200 to 202, before the token is refreshed. A
  failure of the token refresh and a failure to decode the last payload are both returned as
  errors. (A call that panics or never returns is neither.)
\<close>

theorem SendMessage_linkage_on_return:
  "(SendMessage w c message = Some (Return r, c', w') \<longrightarrow>
      (case r of
         Inl err \<Rightarrow>
           Conversation.ConversationId c' = Conversation.ConversationId c
           \<and> Conversation.ParentMessageId c' =
               (if Conversation.ParentMessageId c = '''' then uuids w (uuid_next w)
                else Conversation.ParentMessageId c)
       | Inr text \<Rightarrow>
           (\<exists>respMessage result.
              Unmarshal_ConversationResult w respMessage = Inr result
              \<and> GetMessage result = Return (Inr text)
              \<and> Conversation.ParentMessageId c' = ConversationResult_Message.Id (Message result)
              \<and> Conversation.ConversationId c' = ConversationResult.ConversationId result)))
   \<and> (fst (RefreshAccessToken w (ChatGPT c)) = Some e \<longrightarrow>
        (\<exists>c' w'. SendMessage w c message = Some (Return (Inl (ErrRefresh e)), c', w')))
   \<and> (fst (RefreshAccessToken w (ChatGPT c)) = None
        \<and> (\<forall>t req. URL req = ''https://chat.openai.com/backend-api/conversation''
               \<longrightarrow> Do w t req = Inr \<lparr>StatusCode = 200, Body = b\<rparr>)
        \<and> SendMessage_loop b '''' = Some (Inr payload)
        \<and> Unmarshal_ConversationResult w payload = Inl e \<longrightarrow>
        (\<exists>c' w'. SendMessage w c message = Some (Return (Inl e), c', w')))"
proof (intro conjI impI)
  assume "SendMessage w c message = Some (Return r, c', w')"
  then show "case r of
         Inl err \<Rightarrow>
           Conversation.ConversationId c' = Conversation.ConversationId c
           \<and> Conversation.ParentMessageId c' =
               (if Conversation.ParentMessageId c = '''' then uuids w (uuid_next w)
                else Conversation.ParentMessageId c)
       | Inr text \<Rightarrow>
           (\<exists>respMessage result.
              Unmarshal_ConversationResult w respMessage = Inr result
              \<and> GetMessage result = Return (Inr text)
              \<and> Conversation.ParentMessageId c' = ConversationResult_Message.Id (Message result)
              \<and> Conversation.ConversationId c' = ConversationResult.ConversationId result)"
    by (auto simp: SendMessage_def NewString_def Client_Do_def Reader_def Let_def
        GetMessage_not_error
        split: if_splits sum.splits option.splits prod.splits dest!: Refresh_world
        intro: exI) blast+
next
  assume "fst (RefreshAccessToken w (ChatGPT c)) = Some e"
  then show "\<exists>c' w'. SendMessage w c message = Some (Return (Inl (ErrRefresh e)), c', w')"
    by (rule SendMessage_refresh_fails)
next
  assume a: "fst (RefreshAccessToken w (ChatGPT c)) = None
        \<and> (\<forall>t req. URL req = ''https://chat.openai.com/backend-api/conversation''
               \<longrightarrow> Do w t req = Inr \<lparr>StatusCode = 200, Body = b\<rparr>)
        \<and> SendMessage_loop b '''' = Some (Inr payload)
        \<and> Unmarshal_ConversationResult w payload = Inl e"
  from SendMessage_200[of w c b message] a
  show "\<exists>c' w'. SendMessage w c message = Some (Return (Inl e), c', w')"
    by auto
qed

text \<open>
  The claim C3 as stated fails: a conversation with no parent message id, whose token has
  expired and whose session request fails, gets an error back and has a parent message id
  afterwards that it did not have before.
\<close>

theorem SendMessage_refresh_failure_changes_linkage:
  "SendMessage (example_world '''') (example_conversation 500 '''' '''') ''Hi''
     = Some (Return (Inl (ErrRefresh (ErrTransport ''connection refused''))),
             (example_conversation 500 '''' '''')\<lparr>Conversation.ParentMessageId := uuid0\<rparr>,
             (example_world '''')\<lparr>uuid_next := 1, sent := [session_request (example_client 500)]\<rparr>)
   \<and> Conversation.ParentMessageId (example_conversation 500 '''' '''') = ''''
   \<and> Conversation.ParentMessageId
        ((example_conversation 500 '''' '''')\<lparr>Conversation.ParentMessageId := uuid0\<rparr>)
       = ''6ba7b810-9dad-41d1-80b4-00c04fd430c8''"
  by (simp add: SendMessage_def NewString_def example_world_def example_conversation_def
      example_client_def RefreshAccessToken_def IsAccessTokenExpired_def After_def Client_Do_def
      session_request_def Header_Set_def NewRequest_def uuid0_def)

theorem SendMessage_linkage_examples:
  "(\<exists>respMessage result.
      json_Unmarshal_ConversationResult respMessage = Inr result
      \<and> GetMessage result = Return (Inr ''Hello!'')
      \<and> ''m2'' = ConversationResult_Message.Id (Message result)
      \<and> ''c1'' = ConversationResult.ConversationId result)
   \<and> SendMessage (example_world hello_stream) (example_conversation 2000 '''' '''') ''Hi''
       = Some (Return (Inr ''Hello!''),
               example_conversation 2000 ''c1'' ''m2'',
               (example_world hello_stream)
                 \<lparr>uuid_next := 2,
                   sent := [conversation_request (example_client 2000)
                              (Marshal_ConversationBody
                                 (conversation_body (example_conversation 2000 '''' uuid0) uuid1 ''Hi''))]\<rparr>)
   \<and> (\<exists>c' w'. SendMessage (example_world done_stream) (example_conversation 2000 ''c0'' ''m1'') ''Hi''
                 = Some (Return (Inl SyntaxError), c', w')
              \<and> Conversation.ConversationId c' = ''c0''
              \<and> Conversation.ParentMessageId c' = ''m1'')
   \<and> (\<exists>c' w'. SendMessage (example_world '''') (example_conversation 500 ''c0'' ''m1'') ''Hi''
                 = Some (Return (Inl (ErrRefresh (ErrTransport ''connection refused''))), c', w'))"
proof -
  note t1 = SendMessage_linkage_on_return
      [of "example_world hello_stream" "example_conversation 2000 '''' ''''" "''Hi''"
          "Inr ''Hello!''" "example_conversation 2000 ''c1'' ''m2''"
          "(example_world hello_stream)
                 \<lparr>uuid_next := 2,
                   sent := [conversation_request (example_client 2000)
                              (Marshal_ConversationBody
                                 (conversation_body (example_conversation 2000 '''' uuid0) uuid1 ''Hi''))]\<rparr>"]
  note t2 = SendMessage_linkage_on_return
      [of "example_world done_stream" "example_conversation 2000 ''c0'' ''m1''" "''Hi''"
          "Inl SyntaxError" "example_conversation 2000 ''c0'' ''m1''"
          "(example_world done_stream)
               \<lparr>uuid_next := 1,
                 sent := [conversation_request (example_client 2000)
                            (Marshal_ConversationBody
                               (conversation_body (example_conversation 2000 ''c0'' ''m1'') uuid0 ''Hi''))]\<rparr>"
          SyntaxError "\<lparr>content = done_stream, fault = None\<rparr>" "''''"]
  note t3 = SendMessage_linkage_on_return
      [of "example_world ''''" "example_conversation 500 ''c0'' ''m1''" "''Hi''" _ _ _
          "ErrTransport ''connection refused''"]
  have r3: "fst (RefreshAccessToken (example_world '''') (ChatGPT (example_conversation 500 ''c0'' ''m1'')))
              = Some (ErrTransport ''connection refused'')"
    by (simp add: RefreshAccessToken_def IsAccessTokenExpired_def After_def example_world_def
        example_conversation_def example_client_def Client_Do_def session_request_def
        Header_Set_def NewRequest_def)
  have a: "\<exists>respMessage result.
      json_Unmarshal_ConversationResult respMessage = Inr result
      \<and> GetMessage result = Return (Inr ''Hello!'')
      \<and> ''m2'' = ConversationResult_Message.Id (Message result)
      \<and> ''c1'' = ConversationResult.ConversationId result"
    using t1 run_hello by (simp add: example_world_def example_conversation_def)
  have b: "\<exists>c' w'. SendMessage (example_world done_stream) (example_conversation 2000 ''c0'' ''m1'') ''Hi''
                 = Some (Return (Inl SyntaxError), c', w')
              \<and> Conversation.ConversationId c' = ''c0''
              \<and> Conversation.ParentMessageId c' = ''m1''"
    using t2 run_done by (simp add: example_conversation_def)
  have c: "\<exists>c' w'. SendMessage (example_world '''') (example_conversation 500 ''c0'' ''m1'') ''Hi''
                 = Some (Return (Inl (ErrRefresh (ErrTransport ''connection refused''))), c', w')"
    using t3 r3 by simp
  from a b c run_hello show ?thesis by simp
qed

text \<open>
  C2. The claim fails on the empty stream, its first example. With the token refreshed or
  cached and a response of status 200 whose stream ends after lines that each end in a
  newline, none of them the sentinel (the empty stream has no line), or ends in a last piece
  of fewer than two bytes or without the separator, \<open>SendMessage\<close> never returns: the loop
  of lines 261 to 284 is not left, so the empty string is never parsed and no error comes
  back.
\<close>

theorem SendMessage_never_returns_at_end_of_stream:
  assumes "fst (RefreshAccessToken w (ChatGPT c)) = None"
    and "\<forall>t req. URL req = ''https://chat.openai.com/backend-api/conversation''
           \<longrightarrow> Do w t req
               = Inr \<lparr>StatusCode = 200, Body = \<lparr>content = stream_of ls @ tail, fault = None\<rparr>\<rparr>"
    and "\<forall>l \<in> set ls. line_ok l"
    and "CHR 0x0A \<notin> set tail"
    and "length tail < 2 \<or> Index tail delim = None"
  shows "SendMessage w c message = None"
proof -
  have "SendMessage_loop \<lparr>content = stream_of ls @ tail, fault = None\<rparr> '''' = None"
    using loop_lines[OF assms(3), of tail None "''''"] loop_tail[OF assms(4,5)] by simp
  with SendMessage_200[OF assms(1,2), of message] show ?thesis by auto
qed

theorem SendMessage_never_returns_on_empty_stream:
  "SendMessage (example_world '''') (example_conversation 2000 '''' '''') ''Hi'' = None"
  using SendMessage_never_returns_at_end_of_stream
          [of "example_world ''''" "example_conversation 2000 '''' ''''" "[]" "''''" "''Hi''"]
        served[of "''''"] refresh_example[of "''''" "''''" "''''"]
  by (simp add: stream_of_def)

text \<open>
  C6. With a cached token that has not expired and the decoder of conversation results
  above, a response of status 200 whose lines before the sentinel hold the one payload
  \<open>{"message":{"id":"m2","content":{"parts":["Hello!"]}},"conversation_id":"c1"}\<close>
  (\<open>hello_payload\<close>, the reply of the claim as JSON text; lines without the separator,
  such as the empty lines between events, may stand around it) makes \<open>SendMessage\<close>
  return \<open>Hello!\<close>, and the conversation then holds \<open>m2\<close> as parent message id and
  \<open>c1\<close> as conversation id.
\<close>

theorem SendMessage_hello:
  assumes "ChatGPT.AccessToken (ChatGPT c) \<noteq> ''''"
    and "Now w \<le> ChatGPT.AccessTokenExpires (ChatGPT c)"
    and "Unmarshal_ConversationResult w = json_Unmarshal_ConversationResult"
    and "\<forall>t req. URL req = ''https://chat.openai.com/backend-api/conversation''
           \<longrightarrow> Do w t req
               = Inr \<lparr>StatusCode = 200,
                      Body = \<lparr>content = stream_of ls @ ''data: [DONE]\<newline>'' @ rest, fault = f\<rparr>\<rparr>"
    and "\<forall>l \<in> set ls. line_ok l"
    and "payloads ls = [hello_payload]"
  shows "\<exists>c' w'. SendMessage w c message = Some (Return (Inr ''Hello!''), c', w')
           \<and> Conversation.ParentMessageId c' = ''m2''
           \<and> Conversation.ConversationId c' = ''c1''"
proof -
  have ok: "fst (RefreshAccessToken w (ChatGPT c)) = None"
    using assms(1,2) by (simp add: RefreshAccessToken_def IsAccessTokenExpired_def After_def)
  have loop: "SendMessage_loop \<lparr>content = stream_of ls @ ''data: [DONE]\<newline>'' @ rest, fault = f\<rparr> ''''
                = Some (Inr hello_payload)"
    using loop_lines[OF assms(5), of "''data: [DONE]\<newline>'' @ rest" f "''''"]
          loop_DONE[of rest f hello_payload] assms(6)
    by simp
  have dec: "Unmarshal_ConversationResult w hello_payload = Inr hello_result"
    using assms(3) decode_hello by simp
  have get: "GetMessage hello_result = Return (Inr ''Hello!'')"
    by (simp add: GetMessage_def hello_result_def zero_ConversationResult_def)
  have ids: "ConversationResult_Message.Id (Message hello_result) = ''m2''"
    "ConversationResult.ConversationId hello_result = ''c1''"
    by (simp_all add: hello_result_def zero_ConversationResult_def)
  from SendMessage_200[OF ok assms(4), of message] loop dec get ids
  show ?thesis by auto
qed

theorem SendMessage_hello_example:
  "\<exists>c' w'. SendMessage (example_world hello_stream) (example_conversation 2000 '''' '''') ''Hi''
              = Some (Return (Inr ''Hello!''), c', w')
           \<and> Conversation.ParentMessageId c' = ''m2''
           \<and> Conversation.ConversationId c' = ''c1''"
  using SendMessage_hello
          [of "example_conversation 2000 '''' ''''" "example_world hello_stream"
              "[Data hello_payload, Other '''']" "''\<newline>''" None "''Hi''"]
        served[of hello_stream] newline_hello hello_stream_lines
  by (simp add: example_world_def example_conversation_def example_client_def delim_def)

text \<open>
  C10. \<open>GetMessage\<close> reads the first of the parts with no test that there is one. When
  the payload the loop is left with decodes without an error to a reply whose list of parts
  is empty, \<open>SendMessage\<close> returns no error: it panics with an index out of range, after
  it has overwritten the linkage with the ids of that reply.
\<close>

theorem SendMessage_panics_on_empty_parts:
  assumes "fst (RefreshAccessToken w (ChatGPT c)) = None"
    and "\<forall>t req. URL req = ''https://chat.openai.com/backend-api/conversation''
           \<longrightarrow> Do w t req = Inr \<lparr>StatusCode = 200, Body = b\<rparr>"
    and "SendMessage_loop b '''' = Some (Inr payload)"
    and "Unmarshal_ConversationResult w payload = Inr result"
    and "Parts (ConversationResult_Message.Content (Message result)) = []"
  shows "GetMessage result = Panic ''index out of range [0] with length 0''
       \<and> (\<exists>c' w'. SendMessage w c message
                     = Some (Panic ''index out of range [0] with length 0'', c', w')
                  \<and> Conversation.ParentMessageId c' = ConversationResult_Message.Id (Message result)
                  \<and> Conversation.ConversationId c' = ConversationResult.ConversationId result)"
proof -
  have get: "GetMessage result = Panic ''index out of range [0] with length 0''"
    using assms(5) by (simp add: GetMessage_def)
  from SendMessage_200[OF assms(1,2), of message] assms(3,4) get
  show ?thesis by auto
qed

theorem SendMessage_panics_on_empty_parts_example:
  "GetMessage zero_ConversationResult = Panic ''index out of range [0] with length 0''
   \<and> (\<exists>c' w'. SendMessage (example_world no_parts_stream)
                 (example_conversation 2000 ''c0'' ''m1'') ''Hi''
                 = Some (Panic ''index out of range [0] with length 0'', c', w')
              \<and> Conversation.ParentMessageId c' = ''''
              \<and> Conversation.ConversationId c' = '''')"
  using SendMessage_panics_on_empty_parts
          [of "example_world no_parts_stream" "example_conversation 2000 ''c0'' ''m1''"
              "\<lparr>content = no_parts_stream, fault = None\<rparr>" no_parts_payload
              zero_ConversationResult "''Hi''"]
        served[of no_parts_stream] refresh_example[of no_parts_stream "''c0''" "''m1''"]
        loop_no_parts decode_no_parts
  by (simp add: example_world_def zero_ConversationResult_def)

subsection \<open>Further properties\<close>

text \<open>
  When the session endpoint answers with a status other than 200 (403, say) and the body is
  read without an error, \<open>RefreshAccessToken\<close> returns the status error and leaves the
  client as it was, and \<open>SendMessage\<close> returns that error wrapped, having sent the session
  request and nothing else: the conversation request is not sent.
\<close>

theorem SendMessage_session_status:
  assumes "ChatGPT.AccessToken (ChatGPT c) = '''' \<or> ChatGPT.AccessTokenExpires (ChatGPT c) < Now w"
    and "Do w (ChatGPT.Timeout (ChatGPT c)) (session_request (ChatGPT c))
           = Inr \<lparr>StatusCode = status, Body = \<lparr>content = b, fault = None\<rparr>\<rparr>"
    and "status \<noteq> 200"
  shows "RefreshAccessToken w (ChatGPT c)
           = (Some (ErrStatus status), ChatGPT c, w\<lparr>sent := sent w @ [session_request (ChatGPT c)]\<rparr>)
       \<and> (\<exists>c' w'. SendMessage w c message = Some (Return (Inl (ErrRefresh (ErrStatus status))), c', w')
                  \<and> sent w' = sent w @ [session_request (ChatGPT c)])"
  using assms
  by (auto simp: SendMessage_def NewString_def RefreshAccessToken_def IsAccessTokenExpired_def
      After_def Client_Do_def ReadAll_def Let_def)

theorem SendMessage_session_status_example:
  "\<exists>c' w'. SendMessage (example_world_status 403 ''Forbidden'') (example_conversation 500 '''' '''') ''Hi''
              = Some (Return (Inl (ErrRefresh (ErrStatus 403))), c', w')
           \<and> sent w' = [session_request (example_client 500)]"
  using SendMessage_session_status
          [of "example_conversation 500 '''' ''''" "example_world_status 403 ''Forbidden''"
              403 "''Forbidden''" "''Hi''"]
  by (simp add: example_world_status_def example_world_def example_conversation_def
      example_client_def)

text \<open>
  When the conversation endpoint answers with a status other than 200, \<open>SendMessage\<close>
  returns an error that carries the status and the bytes of the body, and does not read the
  body as a stream of lines.
\<close>

theorem SendMessage_conversation_status:
  assumes "fst (RefreshAccessToken w (ChatGPT c)) = None"
    and "\<forall>t req. URL req = ''https://chat.openai.com/backend-api/conversation''
           \<longrightarrow> Do w t req = Inr \<lparr>StatusCode = status, Body = b\<rparr>"
    and "status \<noteq> 200"
  shows "\<exists>c' w'. SendMessage w c message
                   = Some (Return (Inl (ErrStatusBody status (content b))), c', w')
                \<and> Conversation.ConversationId c' = Conversation.ConversationId c"
proof -
  obtain g' w' where r: "RefreshAccessToken w (ChatGPT c) = (None, g', w')"
    using assms(1) by (cases "RefreshAccessToken w (ChatGPT c)") auto
  from Refresh_world[OF r] have same: "Do w' = Do w" by simp
  show ?thesis
    using r same assms(2,3)
    by (auto simp: SendMessage_def NewString_def Client_Do_def Reader_def Let_def ReadAll_def
        Refresh_uuid_next URL_conversation_request
        split: sum.splits option.splits prod.splits)
qed

theorem SendMessage_conversation_status_example:
  "\<exists>c' w'. SendMessage (example_world_status 429 ''Too Many Requests'')
                (example_conversation 2000 ''c0'' ''m1'') ''Hi''
              = Some (Return (Inl (ErrStatusBody 429 ''Too Many Requests'')), c', w')
           \<and> Conversation.ConversationId c' = ''c0''"
  using SendMessage_conversation_status
          [of "example_world_status 429 ''Too Many Requests''"
              "example_conversation 2000 ''c0'' ''m1''" 429
              "\<lparr>content = ''Too Many Requests'', fault = None\<rparr>" "''Hi''"]
  by (simp add: example_world_status_def example_world_def example_conversation_def
      example_client_def RefreshAccessToken_def IsAccessTokenExpired_def After_def)

text \<open>
  A last line \<open>data: p\<close> that the stream ends without a newline is not captured: the loop
  is left at line 281 before the assignment of line 283, with the payload of the last
  \<open>data: \<close> line that did end in a newline, or with the candidate it started with.
\<close>

theorem SendMessage_loop_drops_unterminated_last_line:
  assumes "\<forall>l \<in> set ls. line_ok l" and "CHR 0x0A \<notin> set p"
  shows "SendMessage_loop \<lparr>content = stream_of ls @ ''data: '' @ p, fault = None\<rparr> m
           = Some (Inr (if payloads ls = [] then m else last (payloads ls)))"
proof -
  have rb: "ReadBytes \<lparr>content = ''data: '' @ p, fault = None\<rparr> (CHR 0x0A)
              = ((''data: '' @ p, Some ErrEOF), \<lparr>content = [], fault = None\<rparr>)"
    using assms(2) ReadBytes_tail[of "\<lparr>content = ''data: '' @ p, fault = None\<rparr>"] by simp
  have ix: "Index (''data: '' @ p) delim = Some 4"
    by (rule Index_data)
  have "SendMessage_loop \<lparr>content = ''data: '' @ p, fault = None\<rparr> m' = Some (Inr m')" for m'
    using rb ix by (subst SendMessage_loop.simps) (simp add: SplitN_2_def)
  with loop_lines[OF assms(1), of "''data: '' @ p" None m] show ?thesis by simp
qed

theorem SendMessage_loop_drops_unterminated_last_line_example:
  "SendMessage_loop \<lparr>content = ''data: {1}\<newline>data: {2}'', fault = None\<rparr> '''' = Some (Inr ''{1}'')"
  using SendMessage_loop_drops_unterminated_last_line[of "[Data ''{1}'']" "''{2}''" "''''"]
  by (simp add: stream_of_def)

end
